theory Spec2Isabelle
  imports Main "HOL-Library.Sublist" "HOL-Library.AList"
begin

section \<open>Strings\<close>

text \<open>
  JavaScript strings are modelled as \<^typ>\<open>string\<close>, one \<^typ>\<open>char\<close> per code unit, for code
  units below 256. On these \<open>toLowerCase\<close> maps A to Z and the Latin-1 capitals (0xC0 to
  0xDE without the multiplication sign 0xD7) to the code unit 32 higher and leaves every
  other code unit as it is; \<open>s.includes(k)\<close> holds when \<open>k\<close> occurs in \<open>s\<close> as a
  contiguous run.
\<close>

definition toLowerCase_char :: "char \<Rightarrow> char" where
  "toLowerCase_char c =
     (let n = (of_char c :: nat)
      in if (65 \<le> n \<and> n \<le> 90) \<or> (192 \<le> n \<and> n \<le> 222 \<and> n \<noteq> 215)
         then char_of (n + 32) else c)"

definition toLowerCase :: "string \<Rightarrow> string" where
  "toLowerCase s = map toLowerCase_char s"

fun includes_str :: "string \<Rightarrow> string \<Rightarrow> bool" where
  "includes_str [] k = (k = [])"
| "includes_str (c # cs) k = (prefix k (c # cs) \<or> includes_str cs k)"

text \<open>\<open>s.slice(0, n)\<close>, \<open>s.slice(-n)\<close> and \<open>s.substr(i, n)\<close>.\<close>

definition slice_to :: "nat \<Rightarrow> string \<Rightarrow> string" where
  "slice_to n s = take n s"

definition slice_last :: "nat \<Rightarrow> string \<Rightarrow> string" where
  "slice_last n s = drop (length s - n) s"

definition substr :: "nat \<Rightarrow> nat \<Rightarrow> string \<Rightarrow> string" where
  "substr i n s = take n (drop i s)"

text \<open>The decimal rendering of a non-negative integer, as a template literal prints it.\<close>

definition digit_char :: "nat \<Rightarrow> char" where
  "digit_char d = ''0123456789'' ! d"

fun show_nat :: "nat \<Rightarrow> string" where
  "show_nat n = (if n < 10 then [digit_char n] else show_nat (n div 10) @ [digit_char (n mod 10)])"

declare show_nat.simps [simp del]

section \<open>Values at run time\<close>

text \<open>
  Values that come out of \<open>JSON.parse\<close> untyped. An object is the list of its own
  properties; a property read takes the first entry for the name. Numbers are kept as
  integers: nothing below depends on a number beyond its being zero or not.
\<close>

datatype json =
    JNull
  | JBool bool
  | JNum int
  | JStr string
  | JArr "json list"
  | JObj "(string \<times> json) list"

type_synonym js_object = "(string \<times> json) list"

datatype editor_mode = Markdown | Latex | Docx

datatype error = Error string | TypeError | SyntaxError | RequestFailed

text \<open>
  An entry of the bibliography is an object. \<open>interface ResearchSnippet\<close> (types.ts, lines
  1 to 8) declares its fields; this is the object with all six of them.
\<close>

definition ResearchSnippet ::
  "string \<Rightarrow> string \<Rightarrow> int \<Rightarrow> string \<Rightarrow> string \<Rightarrow> string list \<Rightarrow> js_object" where
  "ResearchSnippet i s y a c ts =
     [(''id'', JStr i), (''source'', JStr s), (''year'', JNum y), (''author'', JStr a),
      (''content'', JStr c), (''tags'', JArr (map JStr ts))]"

text \<open>
  The own enumerable properties of a value, which is what \<open>{...v}\<close> copies: the entries
  of an object, the elements of an array and the characters of a string under their
  indices, nothing for a number, a boolean or null.
\<close>

fun own_properties :: "json \<Rightarrow> js_object" where
  "own_properties (JObj ps) = ps"
| "own_properties (JArr xs) = zip (map show_nat [0..<length xs]) xs"
| "own_properties (JStr s) = zip (map show_nat [0..<length s]) (map (\<lambda>c. JStr [c]) s)"
| "own_properties v = []"

fun truthy :: "json option \<Rightarrow> bool" where
  "truthy None = False"
| "truthy (Some JNull) = False"
| "truthy (Some (JBool b)) = b"
| "truthy (Some (JNum n)) = (n \<noteq> 0)"
| "truthy (Some (JStr s)) = (s \<noteq> [])"
| "truthy (Some (JArr xs)) = True"
| "truthy (Some (JObj ps)) = True"

text \<open>\<open>v || d\<close> and \<open>v ?? d\<close>, for a default \<open>d\<close> that is a value.\<close>

fun or_else :: "json option \<Rightarrow> json \<Rightarrow> json" where
  "or_else None d = d"
| "or_else (Some v) d = (if truthy (Some v) then v else d)"

fun nullish_else :: "json option \<Rightarrow> json \<Rightarrow> json" where
  "nullish_else None d = d"
| "nullish_else (Some JNull) d = d"
| "nullish_else (Some v) d = v"

text \<open>An object literal \<open>{...base, k1: v1, ..., kn: vn}\<close>: the properties are set in order.\<close>

definition object_literal :: "js_object \<Rightarrow> (string \<times> json) list \<Rightarrow> js_object" where
  "object_literal base kvs = fold (\<lambda>(k, v). AList.update k v) kvs base"

text \<open>
  Method calls on a value that was read untyped. \<open>v.toLowerCase()\<close> needs a string and
  \<open>v.some(f)\<close>, \<open>v.map(f)\<close> and \<open>v.join(s)\<close> need an array; on undefined (\<open>None\<close>), on null and
  on every other value the call throws a TypeError (a property of that name in a parsed
  object is never a function).
\<close>

fun toLowerCase_of :: "json option \<Rightarrow> error + string" where
  "toLowerCase_of (Some (JStr s)) = Inr (toLowerCase s)"
| "toLowerCase_of v = Inl TypeError"

fun array_of :: "json option \<Rightarrow> error + json list" where
  "array_of (Some (JArr xs)) = Inr xs"
| "array_of v = Inl TypeError"

text \<open>
  \<open>xs.some(p)\<close> and \<open>xs.filter(p)\<close> for a callback that may throw: the elements are
  visited in order, \<open>some\<close> stops at the first hit, and the first exception ends the call.
\<close>

fun some_js :: "('a \<Rightarrow> error + bool) \<Rightarrow> 'a list \<Rightarrow> error + bool" where
  "some_js p [] = Inr False"
| "some_js p (x # xs) =
     (case p x of
        Inl e \<Rightarrow> Inl e
      | Inr b \<Rightarrow> if b then Inr True else some_js p xs)"

fun filter_js :: "('a \<Rightarrow> error + bool) \<Rightarrow> 'a list \<Rightarrow> error + 'a list" where
  "filter_js p [] = Inr []"
| "filter_js p (x # xs) =
     (case p x of
        Inl e \<Rightarrow> Inl e
      | Inr b \<Rightarrow>
          (case filter_js p xs of
             Inl e \<Rightarrow> Inl e
           | Inr ys \<Rightarrow> Inr (if b then x # ys else ys)))"

section \<open>The model API and the environment (geminiService.ts)\<close>

text \<open>
  What one \<open>ai.models.generateContent\<close> call whose answer is read as JSON can do:
  the promise rejects; the response has no text (\<open>response.text\<close> is undefined or the
  empty string); the text is not JSON (\<open>JSON.parse\<close> throws); or the text parses to a value.
\<close>

datatype 'a reply = Rejected | Empty | Malformed | Body 'a

text \<open>A call whose answer is used as plain text: rejected, or a response with its text.\<close>

datatype text_reply = TextRejected | Text "string option"

text \<open>
  The effects a call leaves behind, in order. A request is recorded with the values that
  are interpolated into its prompt.
\<close>

datatype effect =
    KeywordCall string
  | CitationCall nat string
  | StyleCall string
  | GhostCall string js_object "js_object list" editor_mode
  | RewriteCall string js_object editor_mode
  | ContinueCall string js_object editor_mode
  | SampleCall js_object
  | Alert string


fun is_model_call :: "effect \<Rightarrow> bool" where
  "is_model_call (Alert m) = False"
| "is_model_call e = True"

text \<open>
  The environment of the service: the configured key, the answer of the model to each
  request, and the values of \<open>Date.now()\<close> and \<open>Math.random().toString(36)\<close> at the
  \<open>i\<close>-th draw of a call.
\<close>

record world =
  apiKey :: string
  keywordModel :: "string \<Rightarrow> json reply"
  citationModel :: "nat \<Rightarrow> string \<Rightarrow> json reply"
  styleModel :: "string \<Rightarrow> json reply"
  ghostModel :: "string \<Rightarrow> js_object \<Rightarrow> js_object list \<Rightarrow> editor_mode \<Rightarrow> json reply"
  rewriteModel :: "string \<Rightarrow> js_object \<Rightarrow> editor_mode \<Rightarrow> text_reply"
  continueModel :: "string \<Rightarrow> js_object \<Rightarrow> editor_mode \<Rightarrow> text_reply"
  sampleModel :: "js_object \<Rightarrow> text_reply"
  now :: "nat \<Rightarrow> nat"
  random36 :: "nat \<Rightarrow> string"

section \<open>Keyword extraction and citation resolution\<close>

text \<open>
  \<open>extractKeywords\<close> returns whatever \<open>JSON.parse\<close> gives (line 397), unchecked; a missing
  text parses as \<open>[]\<close>, and a rejected call or a text that is not JSON ends in the \<open>catch\<close>
  block, which returns \<open>[]\<close>.
\<close>

definition extractKeywords :: "world \<Rightarrow> string \<Rightarrow> json \<times> effect list" where
  "extractKeywords w text =
     (if apiKey w = [] \<or> length text < 50 then (JArr [], [])
      else let prompt = slice_last 500 text in
        (case keywordModel w prompt of
           Body keywords \<Rightarrow> keywords
         | Empty \<Rightarrow> JArr []
         | Malformed \<Rightarrow> JArr []
         | Rejected \<Rightarrow> JArr [],
         [KeywordCall prompt]))"

text \<open>
  The callback of \<open>keywords.some\<close> (lines 296 to 299) for one item and one keyword:
  \<open>item.content.toLowerCase()\<close>, then \<open>k.toLowerCase()\<close>, then, when the content does not
  include the keyword, \<open>item.tags.some\<close> over the tags.
\<close>

definition matches_keyword :: "js_object \<Rightarrow> json \<Rightarrow> error + bool" where
  "matches_keyword item k =
     (case toLowerCase_of (map_of item ''content'') of
        Inl e \<Rightarrow> Inl e
      | Inr c \<Rightarrow>
          (case toLowerCase_of (Some k) of
             Inl e \<Rightarrow> Inl e
           | Inr kl \<Rightarrow>
               if includes_str c kl then Inr True
               else
                 (case array_of (map_of item ''tags'') of
                    Inl e \<Rightarrow> Inl e
                  | Inr ts \<Rightarrow>
                      some_js (\<lambda>t. case toLowerCase_of (Some t) of
                                       Inl e \<Rightarrow> Inl e
                                     | Inr tag \<Rightarrow> Inr (includes_str tag kl)) ts)))"

text \<open>
  \<open>researchDB.filter(item => keywords.some(...))\<close> (lines 295 to 300), outside any \<open>try\<close>:
  an exception of the callback is an exception of the call.
\<close>

definition localMatches :: "json \<Rightarrow> js_object list \<Rightarrow> error + js_object list" where
  "localMatches keywords researchDB =
     filter_js (\<lambda>item. case array_of (Some keywords) of
                          Inl e \<Rightarrow> Inl e
                        | Inr ks \<Rightarrow> some_js (matches_keyword item) ks) researchDB"

text \<open>The id \<open>gen_${Date.now()}_${Math.random().toString(36).substr(2, 9)}\<close>.\<close>

definition make_id :: "nat \<Rightarrow> string \<Rightarrow> string" where
  "make_id t r = ''gen_'' @ show_nat t @ ''_'' @ r"

definition gen_id :: "world \<Rightarrow> nat \<Rightarrow> string" where
  "gen_id w i = make_id (now w i) (substr 2 9 (random36 w i))"

text \<open>
  \<open>generated.map(g => ({...g, id: ...}))\<close>: the \<open>i\<close>-th element takes the \<open>i\<close>-th draw, and
  any value can be spread.
\<close>

definition newSnippets :: "world \<Rightarrow> json list \<Rightarrow> js_object list" where
  "newSnippets w gs =
     map (\<lambda>(i, g). object_literal (own_properties g) [(''id'', JStr (gen_id w i))]) (enumerate 0 gs)"

text \<open>
  Inside the \<open>try\<close> (lines 327 to 344) a rejected call, a text that is not JSON and a
  TypeError of \<open>generated.map\<close> end in the \<open>catch\<close> block; then, as for a missing text, the
  local matches are returned.
\<close>

definition findCitationsForSelection ::
  "world \<Rightarrow> string \<Rightarrow> js_object list \<Rightarrow> (error + js_object list) \<times> effect list" where
  "findCitationsForSelection w selection researchDB =
     (if apiKey w = [] then (Inl (Error ''API Key missing''), [])
      else
        let (keywords, tr) = extractKeywords w selection
        in case localMatches keywords researchDB of
             Inl e \<Rightarrow> (Inl e, tr)
           | Inr ms \<Rightarrow>
               if length ms \<ge> 3 then (Inr (take 3 ms), tr)
               else
                 let needed = 3 - length ms;
                     context = slice_to 1000 selection
                 in (Inr (case citationModel w needed context of
                            Body generated \<Rightarrow>
                              (case array_of (Some generated) of
                                 Inr gs \<Rightarrow> ms @ newSnippets w gs
                               | Inl e \<Rightarrow> ms)
                          | Malformed \<Rightarrow> ms
                          | Empty \<Rightarrow> ms
                          | Rejected \<Rightarrow> ms),
                     tr @ [CitationCall needed context]))"

section \<open>Style analysis\<close>

text \<open>
  The object \<open>analyzeStyle\<close> builds from a parsed answer (lines 56 to 76). A property
  read \<open>parsed.name\<close> throws a TypeError when \<open>parsed\<close> is null and gives the own property
  or undefined (\<open>None\<close>) otherwise; none of the names read is inherited from a prototype.
\<close>

definition styleFromParsed :: "json \<Rightarrow> error + js_object" where
  "styleFromParsed parsed =
     (if parsed = JNull then Inl TypeError
      else
      let p = map_of (own_properties parsed) in
      Inr (object_literal (own_properties parsed)
        [(''dialect'', or_else (p ''dialect'') (JStr ''American'')),
         (''sentenceStructure'', or_else (p ''sentenceStructure'') (JStr ''Natural'')),
         (''sentenceLengthBias'', or_else (p ''sentenceLengthBias'') (JStr ''Varied'')),
         (''vocabularyStyle'', or_else (p ''vocabularyStyle'') (JStr ''Literal'')),
         (''modifierFrequency'', or_else (p ''modifierFrequency'') (JStr ''Medium'')),
         (''connectiveFrequency'', or_else (p ''connectiveFrequency'') (JStr ''Medium'')),
         (''writingDomain'', or_else (p ''writingDomain'') (JStr ''General'')),
         (''structuralBias'', or_else (p ''structuralBias'') (JStr ''Default'')),
         (''useMetaphors'', nullish_else (p ''useMetaphors'') (JBool False)),
         (''useAnalogies'', nullish_else (p ''useAnalogies'') (JBool False)),
         (''useAnecdotes'', nullish_else (p ''useAnecdotes'') (JBool False)),
         (''allowContractions'', nullish_else (p ''allowContractions'') (JBool True)),
         (''allowSplitInfinitives'', nullish_else (p ''allowSplitInfinitives'') (JBool True)),
         (''allowEndingPrepositions'', nullish_else (p ''allowEndingPrepositions'') (JBool True)),
         (''preferConcreteNouns'', nullish_else (p ''preferConcreteNouns'') (JBool True)),
         (''allowedPunctuation'', or_else (p ''allowedPunctuation'') (JArr [JStr '','', JStr ''.''])),
         (''bannedWords'', or_else (p ''bannedWords'') (JArr []))]))"

text \<open>The object returned from the \<open>catch\<close> block (lines 82 to 110).\<close>

definition errorProfile :: js_object where
  "errorProfile =
     [(''tone'', JStr ''Error''),
      (''avgSentenceLength'', JStr ''Error''),
      (''jargonLevel'', JStr ''Error''),
      (''transitionWords'', JArr []),
      (''rawSummary'', JStr ''Failed to analyze style.''),
      (''formalityLevel'', JNum 50),
      (''sentenceVariance'', JNum 50),
      (''activeVoice'', JNum 50),
      (''dialect'', JStr ''American''),
      (''sentenceStructure'', JStr ''Natural''),
      (''sentenceLengthBias'', JStr ''Varied''),
      (''vocabularyStyle'', JStr ''Literal''),
      (''modifierFrequency'', JStr ''Medium''),
      (''connectiveFrequency'', JStr ''Medium''),
      (''writingDomain'', JStr ''General''),
      (''structuralBias'', JStr ''Default''),
      (''useMetaphors'', JBool False),
      (''useAnalogies'', JBool False),
      (''useAnecdotes'', JBool False),
      (''allowContractions'', JBool True),
      (''allowSplitInfinitives'', JBool True),
      (''allowEndingPrepositions'', JBool True),
      (''preferConcreteNouns'', JBool True),
      (''useIdioms'', JBool False),
      (''useRhetoricalDevices'', JBool False),
      (''allowedPunctuation'', JArr []),
      (''bannedWords'', JArr [])]"

text \<open>
  Inside the \<open>try\<close>: a rejected call, a missing text (\<open>No data returned\<close> is thrown), a
  text that does not parse and a TypeError while the object is built all end in the
  \<open>catch\<close> block.
\<close>

definition analyzeStyle :: "world \<Rightarrow> string \<Rightarrow> (error + js_object) \<times> effect list" where
  "analyzeStyle w sampleText =
     (if apiKey w = [] then (Inl (Error ''API Key missing''), [])
      else
        let sample = slice_to 3000 sampleText in
        (Inr (case styleModel w sample of
                Body parsed \<Rightarrow>
                  (case styleFromParsed parsed of
                     Inr profile \<Rightarrow> profile
                   | Inl e \<Rightarrow> errorProfile)
              | Empty \<Rightarrow> errorProfile
              | Malformed \<Rightarrow> errorProfile
              | Rejected \<Rightarrow> errorProfile),
         [StyleCall sample]))"

text \<open>The fields of \<open>interface StyleProfile\<close> (types.ts, lines 18 to 59).\<close>

definition StyleProfile_fields :: "string list" where
  "StyleProfile_fields =
     [''tone'', ''avgSentenceLength'', ''jargonLevel'', ''transitionWords'', ''rawSummary'',
      ''formalityLevel'', ''sentenceVariance'', ''activeVoice'',
      ''dialect'', ''sentenceStructure'', ''sentenceLengthBias'', ''vocabularyStyle'',
      ''modifierFrequency'', ''connectiveFrequency'',
      ''writingDomain'', ''structuralBias'',
      ''useMetaphors'', ''useAnalogies'', ''useAnecdotes'',
      ''allowContractions'', ''allowSplitInfinitives'', ''allowEndingPrepositions'',
      ''useIdioms'', ''useRhetoricalDevices'', ''preferConcreteNouns'',
      ''allowedPunctuation'', ''bannedWords'']"

text \<open>A field has a defined value when it is neither undefined nor null.\<close>

fun defined_value :: "json option \<Rightarrow> bool" where
  "defined_value None = False"
| "defined_value (Some JNull) = False"
| "defined_value (Some v) = True"

definition every_field_defined :: "js_object \<Rightarrow> bool" where
  "every_field_defined profile = list_all (\<lambda>f. defined_value (map_of profile f)) StyleProfile_fields"

section \<open>The other exported operations\<close>

text \<open>
  \<open>constructSystemPrompt\<close> (lines 164 and 167) and the prompt of \<open>generateStyleSample\<close>
  (lines 365 and 367) call \<open>styleProfile.bannedWords.join\<close> and
  \<open>styleProfile.allowedPunctuation.join\<close>, outside any \<open>try\<close>: the prompt is built when both
  are arrays, and a TypeError is thrown otherwise. The text of a prompt is not modelled.
\<close>

definition joinsPromptLists :: "js_object \<Rightarrow> bool" where
  "joinsPromptLists profile =
     (case array_of (map_of profile ''bannedWords'') of
        Inl e \<Rightarrow> False
      | Inr bs \<Rightarrow>
          (case array_of (map_of profile ''allowedPunctuation'') of
             Inl e \<Rightarrow> False
           | Inr ps \<Rightarrow> True))"

text \<open>\<open>s.split(' ')\<close>, \<open>xs.slice(-n)\<close> and \<open>xs.join(' ')\<close>.\<close>

fun split_space :: "string \<Rightarrow> string list" where
  "split_space [] = [[]]"
| "split_space (c # cs) =
     (if c = CHR '' '' then [] # split_space cs
      else (case split_space cs of
              [] \<Rightarrow> [[c]]
            | x # xs \<Rightarrow> (c # x) # xs))"

fun join_space :: "string list \<Rightarrow> string" where
  "join_space [] = []"
| "join_space [x] = x"
| "join_space (x # y # ys) = x @ CHR '' '' # join_space (y # ys)"

text \<open>
  \<open>ghostWrite\<close> has no \<open>try\<close>. The parsed answer is used unchecked: \<open>data.newReferences\<close>
  throws on null, \<open>.map\<close> throws unless it is an array, and the answer is returned with its
  references under fresh ids.
\<close>

definition ghostWrite ::
  "world \<Rightarrow> string \<Rightarrow> js_object \<Rightarrow> js_object list \<Rightarrow> editor_mode
     \<Rightarrow> (error + js_object) \<times> effect list" where
  "ghostWrite w currentText profile researchContext mode =
     (if apiKey w = [] then (Inl (Error ''API Key missing''), [])
      else if \<not> joinsPromptLists profile then (Inl TypeError, [])
      else
        let ws = split_space currentText;
            recentContext = join_space (drop (length ws - 300) ws)
        in (case ghostModel w recentContext profile researchContext mode of
              Body data \<Rightarrow>
                (if data = JNull then Inl TypeError
                 else
                   (case array_of (map_of (own_properties data) ''newReferences'') of
                      Inl e \<Rightarrow> Inl e
                    | Inr refs \<Rightarrow>
                        Inr (AList.update ''newReferences'' (JArr (map JObj (newSnippets w refs)))
                               (own_properties data))))
            | Empty \<Rightarrow> Inl (Error ''Failed to generate content'')
            | Malformed \<Rightarrow> Inl SyntaxError
            | Rejected \<Rightarrow> Inl RequestFailed,
            [GhostCall recentContext profile researchContext mode]))"

definition rewriteSection ::
  "world \<Rightarrow> string \<Rightarrow> js_object \<Rightarrow> editor_mode \<Rightarrow> (error + string) \<times> effect list" where
  "rewriteSection w selection profile mode =
     (if apiKey w = [] then (Inl (Error ''API Key missing''), [])
      else if \<not> joinsPromptLists profile then (Inl TypeError, [])
      else
        (case rewriteModel w selection profile mode of
           Text (Some t) \<Rightarrow> Inr (if t \<noteq> [] then t else selection)
         | Text None \<Rightarrow> Inr selection
         | TextRejected \<Rightarrow> Inl RequestFailed,
         [RewriteCall selection profile mode]))"

definition continueSection ::
  "world \<Rightarrow> string \<Rightarrow> js_object \<Rightarrow> editor_mode \<Rightarrow> (error + string) \<times> effect list" where
  "continueSection w selection profile mode =
     (if apiKey w = [] then (Inl (Error ''API Key missing''), [])
      else if \<not> joinsPromptLists profile then (Inl TypeError, [])
      else
        (case continueModel w selection profile mode of
           Text (Some t) \<Rightarrow> Inr (if t \<noteq> [] then t else [])
         | Text None \<Rightarrow> Inr []
         | TextRejected \<Rightarrow> Inl RequestFailed,
         [ContinueCall selection profile mode]))"

definition generateStyleSample :: "world \<Rightarrow> js_object \<Rightarrow> (error + string) \<times> effect list" where
  "generateStyleSample w profile =
     (if apiKey w = [] then (Inl (Error ''API Key missing''), [])
      else if \<not> joinsPromptLists profile then (Inl TypeError, [])
      else
        (case sampleModel w profile of
           Text (Some t) \<Rightarrow> Inr (if t \<noteq> [] then t else ''Failed to generate sample.'')
         | Text None \<Rightarrow> Inr ''Failed to generate sample.''
         | TextRejected \<Rightarrow> Inr ''Error generating sample.'',
         [SampleCall profile]))"

section \<open>The application handlers (App.tsx)\<close>

record app_state =
  doc_content :: string
  researchData :: "js_object list"
  liveSuggestions :: "js_object list"
  styleProfile :: js_object
  isGhostWriting :: bool
  isCalibrating :: bool


definition handleCalibrateFromEditor ::
  "world \<Rightarrow> app_state \<Rightarrow> app_state \<Rightarrow> app_state \<times> effect list" where
  "handleCalibrateFromEditor w st cur =
     (if length (doc_content st) < 50
      then (cur, [Alert ''Please write at least 50 characters before calibrating.''])
      else
        (case analyzeStyle w (doc_content st) of
           (Inr newProfile, tr) \<Rightarrow> (cur\<lparr>styleProfile := newProfile, isCalibrating := False\<rparr>, tr)
         | (Inl e, tr) \<Rightarrow> (cur\<lparr>isCalibrating := False\<rparr>, tr)))"

section \<open>The claims' notions in the words of the specification\<close>

text \<open>
  A keyword is a case-insensitive substring of a text when, after lower-casing both, the
  text is some prefix, then the keyword, then some suffix. A snippet qualifies when some
  keyword is a case-insensitive substring of its content or of one of its tags. The
  keywords are the strings of the extracted array, the content is the string under
  \<open>content\<close> and the tags are the strings of the array under \<open>tags\<close>.
\<close>

definition case_insensitive_substring :: "string \<Rightarrow> string \<Rightarrow> bool" where
  "case_insensitive_substring k s = (\<exists>pre post. toLowerCase s = pre @ toLowerCase k @ post)"

fun json_strings :: "json list \<Rightarrow> string list" where
  "json_strings [] = []"
| "json_strings (JStr s # vs) = s # json_strings vs"
| "json_strings (v # vs) = json_strings vs"

fun keyword_strings :: "json \<Rightarrow> string list" where
  "keyword_strings (JArr ks) = json_strings ks"
| "keyword_strings v = []"

definition content_strings :: "js_object \<Rightarrow> string list" where
  "content_strings item = (case map_of item ''content'' of Some (JStr c) \<Rightarrow> [c] | _ \<Rightarrow> [])"

definition tag_strings :: "js_object \<Rightarrow> string list" where
  "tag_strings item = (case map_of item ''tags'' of Some (JArr ts) \<Rightarrow> json_strings ts | _ \<Rightarrow> [])"

definition qualifies :: "string list \<Rightarrow> js_object \<Rightarrow> bool" where
  "qualifies keywords item =
     (\<exists>k \<in> set keywords.
        (\<exists>c \<in> set (content_strings item). case_insensitive_substring k c) \<or>
        (\<exists>t \<in> set (tag_strings item). case_insensitive_substring k t))"





text \<open>
  The style-analysis call fails: the request is rejected (a network error), the response
  has no text, the text is not JSON (a parse error), or it parses to null.
\<close>

fun analysis_failed :: "json reply \<Rightarrow> bool" where
  "analysis_failed Rejected = True"
| "analysis_failed Empty = True"
| "analysis_failed Malformed = True"
| "analysis_failed (Body parsed) = (parsed = JNull)"

text \<open>
  The fallbacks of the profile merge: the fields filled with \<open>||\<close> and the fields filled
  with \<open>??\<close>, each with its default.
\<close>

definition or_fallbacks :: "(string \<times> json) list" where
  "or_fallbacks =
     [(''dialect'', JStr ''American''),
      (''sentenceStructure'', JStr ''Natural''),
      (''sentenceLengthBias'', JStr ''Varied''),
      (''vocabularyStyle'', JStr ''Literal''),
      (''modifierFrequency'', JStr ''Medium''),
      (''connectiveFrequency'', JStr ''Medium''),
      (''writingDomain'', JStr ''General''),
      (''structuralBias'', JStr ''Default''),
      (''allowedPunctuation'', JArr [JStr '','', JStr ''.'']),
      (''bannedWords'', JArr [])]"

definition nullish_fallbacks :: "(string \<times> json) list" where
  "nullish_fallbacks =
     [(''useMetaphors'', JBool False),
      (''useAnalogies'', JBool False),
      (''useAnecdotes'', JBool False),
      (''allowContractions'', JBool True),
      (''allowSplitInfinitives'', JBool True),
      (''allowEndingPrepositions'', JBool True),
      (''preferConcreteNouns'', JBool True)]"

text \<open>The timestamp and the random suffix that go into the \<open>i\<close>-th generated id.\<close>

definition draw :: "world \<Rightarrow> nat \<Rightarrow> nat \<times> string" where
  "draw w i = (now w i, substr 2 9 (random36 w i))"

text \<open>An id that is a string beginning with \<open>gen_\<close>, as every generated id is.\<close>

fun starts_with_gen :: "json option \<Rightarrow> bool" where
  "starts_with_gen (Some (JStr s)) = prefix ''gen_'' s"
| "starts_with_gen v = False"

text \<open>The ids of a list of entries, in order; an entry without an id gives \<open>None\<close>.\<close>

definition ids_of :: "js_object list \<Rightarrow> json option list" where
  "ids_of entries = map (\<lambda>entry. map_of entry ''id'') entries"

section \<open>Example inputs\<close>

definition example_db :: "js_object list" where
  "example_db =
     [ResearchSnippet ''1'' ''Solar Cells'' 2024 ''Smith et al.''
        ''Quantum dots raise efficiency.'' [''solar'', ''energy''],
      ResearchSnippet ''2'' ''Warm Systems'' 2023 ''Rodriguez & Chen''
        ''Decoherence is rapid.'' [''Quantum'', ''physics''],
      ResearchSnippet ''3'' ''Modern AI'' 2025 ''Doe, J.''
        ''Models converge on mean prose.'' [''ai'', ''llm''],
      ResearchSnippet ''4'' ''Interface Design'' 2022 ''Nielsen''
        ''A quantum leap for split views.'' [''ux''],
      ResearchSnippet ''5'' ''Tunnelling'' 2021 ''Okafor''
        ''Barriers are thin.'' [''subquantum'']]"

definition example_selection :: string where
  "example_selection = ''Quantum effects at room temperature are difficult to observe''"

text \<open>A generated record as the citation prompt asks for it, and the citation made of it.\<close>

definition example_generated :: json where
  "example_generated =
     JObj [(''source'', JStr ''Title of paper''), (''year'', JNum 2024),
           (''author'', JStr ''Author Name''),
           (''content'', JStr ''One sentence summary of relevance.''),
           (''tags'', JArr [JStr ''tag1'', JStr ''tag2''])]"

definition example_citation :: "string \<Rightarrow> js_object" where
  "example_citation i =
     [(''source'', JStr ''Title of paper''), (''year'', JNum 2024),
      (''author'', JStr ''Author Name''),
      (''content'', JStr ''One sentence summary of relevance.''),
      (''tags'', JArr [JStr ''tag1'', JStr ''tag2'']),
      (''id'', JStr i)]"

text \<open>
  A configured service whose model answers every request as asked: the keyword
  \<open>quantum\<close>, as many citations as requested, an empty style object.
\<close>

definition example_world :: world where
  "example_world =
     \<lparr>apiKey = ''key'',
      keywordModel = (\<lambda>prompt. Body (JArr [JStr ''quantum''])),
      citationModel = (\<lambda>needed ctx. Body (JArr (replicate needed example_generated))),
      styleModel = (\<lambda>sample. Body (JObj [])),
      ghostModel = (\<lambda>recent profile refs mode. Empty),
      rewriteModel = (\<lambda>selection profile mode. Text None),
      continueModel = (\<lambda>selection profile mode. Text None),
      sampleModel = (\<lambda>profile. Text None),
      now = (\<lambda>i. 1730000000000),
      random36 = (\<lambda>i. if i = 0 then ''0.4fzyo82mvyr''
                     else if i = 1 then ''0.k1x9q0w2e8z''
                     else if i = 2 then ''0.9zzb3c7h1ds''
                     else ''0.c07fe4tea2x'')\<rparr>"

text \<open>The same service with no key configured.\<close>

definition world_without_key :: world where
  "world_without_key = example_world\<lparr>apiKey := []\<rparr>"





text \<open>A random source that repeats itself within one millisecond.\<close>

definition world_repeating_draws :: world where
  "world_repeating_draws = example_world\<lparr>random36 := (\<lambda>i. ''0.4fzyo82mvyr'')\<rparr>"


text \<open>A style analyser that rejects every request.\<close>

definition world_analyser_down :: world where
  "world_analyser_down = example_world\<lparr>styleModel := (\<lambda>sample. Rejected)\<rparr>"

text \<open>Style answers: one with an empty dialect, one with three fields set.\<close>

definition world_blank_dialect :: world where
  "world_blank_dialect =
     example_world\<lparr>styleModel := (\<lambda>sample. Body (JObj [(''dialect'', JStr [])]))\<rparr>"

definition partial_style :: json where
  "partial_style =
     JObj [(''tone'', JStr ''Formal''),
           (''dialect'', JStr ''British''),
           (''allowContractions'', JBool False)]"

definition world_partial_style :: world where
  "world_partial_style = example_world\<lparr>styleModel := (\<lambda>sample. Body partial_style)\<rparr>"

text \<open>The object that holds the seventeen fallback fields at their defaults and nothing else.\<close>

definition fallbacks_only :: js_object where
  "fallbacks_only =
     [(''dialect'', JStr ''American''),
      (''sentenceStructure'', JStr ''Natural''),
      (''sentenceLengthBias'', JStr ''Varied''),
      (''vocabularyStyle'', JStr ''Literal''),
      (''modifierFrequency'', JStr ''Medium''),
      (''connectiveFrequency'', JStr ''Medium''),
      (''writingDomain'', JStr ''General''),
      (''structuralBias'', JStr ''Default''),
      (''useMetaphors'', JBool False),
      (''useAnalogies'', JBool False),
      (''useAnecdotes'', JBool False),
      (''allowContractions'', JBool True),
      (''allowSplitInfinitives'', JBool True),
      (''allowEndingPrepositions'', JBool True),
      (''preferConcreteNouns'', JBool True),
      (''allowedPunctuation'', JArr [JStr '','', JStr ''.'']),
      (''bannedWords'', JArr [])]"

text \<open>Application states: a document of 60 characters and one of 10.\<close>

definition example_state :: app_state where
  "example_state =
     \<lparr>doc_content = example_selection,
      researchData = take 3 example_db,
      liveSuggestions = [],
      styleProfile = errorProfile,
      isGhostWriting = False,
      isCalibrating = False\<rparr>"

definition short_state :: app_state where
  "short_state = example_state\<lparr>doc_content := ''Too short.''\<rparr>"

section \<open>Evaluating the examples\<close>

lemma eq_char_of_iff: "c = char_of n \<longleftrightarrow> take_bit 8 n = of_char c"
  using char_of_eq_iff [of n c] by auto

lemmas string_defs = toLowerCase_def toLowerCase_char_def char_of_eq_iff eq_char_of_iff
  slice_to_def slice_last_def substr_def

lemma toLowerCase_example:
  "toLowerCase ''Quantum LEAP, 9 dots.'' = ''quantum leap, 9 dots.''"
  "toLowerCase [CHR 0xC9, CHR 0xD7, CHR 0xDE, CHR 0xDF] = [CHR 0xE9, CHR 0xD7, CHR 0xFE, CHR 0xDF]"
  by (simp_all add: string_defs)

lemma show_nat_example: "show_nat 1730000000000 = ''1730000000000''"
  by (simp add: show_nat.simps digit_char_def)

section \<open>Callbacks that may throw\<close>

lemma some_js_True: "some_js p xs = Inr True \<Longrightarrow> \<exists>x \<in> set xs. p x = Inr True"
  by (induction xs) (auto split: sum.splits if_splits)

lemma some_js_False: "some_js p xs = Inr False \<Longrightarrow> \<forall>x \<in> set xs. p x = Inr False"
  by (induction xs) (auto split: sum.splits if_splits)


lemma filter_js_sound:
  assumes "filter_js p xs = Inr ys"
      and "\<And>x b. x \<in> set xs \<Longrightarrow> p x = Inr b \<Longrightarrow> b = P x"
  shows "ys = filter P xs"
  using assms
proof (induction xs arbitrary: ys)
  case Nil
  then show ?case by simp
next
  case (Cons x xs)
  from Cons.prems(1) obtain b zs where px: "p x = Inr b" and rest: "filter_js p xs = Inr zs"
    and ys: "ys = (if b then x # zs else zs)"
    by (auto split: sum.splits)
  from Cons.prems(2) [of x b] px have b: "b = P x" by simp
  from Cons.IH [OF rest] Cons.prems(2) have "zs = filter P xs" by simp
  with ys b show ?case by simp
qed


section \<open>Local matches\<close>

lemma includes_str_sublist: "includes_str s k \<longleftrightarrow> sublist k s"
  by (induction s) (auto simp: sublist_Cons_right)

lemma includes_str_iff:
  "includes_str (toLowerCase s) (toLowerCase k) \<longleftrightarrow> case_insensitive_substring k s"
  by (simp add: includes_str_sublist sublist_def case_insensitive_substring_def)

lemma set_json_strings: "set (json_strings vs) = {s. JStr s \<in> set vs}"
  by (induction vs rule: json_strings.induct) auto

lemma toLowerCase_of_Inr: "toLowerCase_of v = Inr l \<Longrightarrow> \<exists>s. v = Some (JStr s) \<and> l = toLowerCase s"
  by (cases v rule: toLowerCase_of.cases) auto

lemma array_of_Inr: "array_of v = Inr xs \<Longrightarrow> v = Some (JArr xs)"
  by (cases v rule: array_of.cases) auto

text \<open>When the callback returns for an item and a keyword, it returns what the rule says.\<close>

lemma matches_keyword_sound:
  assumes "matches_keyword item k = Inr b"
  shows "\<exists>s. k = JStr s \<and>
           b = ((\<exists>c \<in> set (content_strings item). case_insensitive_substring s c) \<or>
                (\<exists>t \<in> set (tag_strings item). case_insensitive_substring s t))"
proof -
  from assms obtain c where c: "map_of item ''content'' = Some (JStr c)"
    by (auto simp: matches_keyword_def split: sum.splits dest: toLowerCase_of_Inr)
  have cs: "content_strings item = [c]"
    using c by (simp add: content_strings_def)
  from assms c obtain s where s: "k = JStr s"
    by (auto simp: matches_keyword_def split: sum.splits dest: toLowerCase_of_Inr)
  show ?thesis
  proof (cases "includes_str (toLowerCase c) (toLowerCase s)")
    case True
    with assms c s have "b" by (simp add: matches_keyword_def)
    with True s show ?thesis by (auto simp: cs includes_str_iff)
  next
    case False
    with assms c s obtain ts where ts: "map_of item ''tags'' = Some (JArr ts)"
      and sm: "some_js (\<lambda>t. case toLowerCase_of (Some t) of
                                Inl e \<Rightarrow> Inl e
                              | Inr tag \<Rightarrow> Inr (includes_str tag (toLowerCase s))) ts = Inr b"
      by (auto simp: matches_keyword_def split: sum.splits dest: array_of_Inr)
    have content: "\<not> (\<exists>c \<in> set (content_strings item). case_insensitive_substring s c)"
      using False by (simp add: cs includes_str_iff)
    have tgs: "tag_strings item = json_strings ts"
      using ts by (simp add: tag_strings_def)
    have "b = (\<exists>t \<in> set (json_strings ts). case_insensitive_substring s t)"
    proof (cases b)
      case True
      with some_js_True sm obtain t tag where "t \<in> set ts"
        and "toLowerCase_of (Some t) = Inr tag" and "includes_str tag (toLowerCase s)"
        by (fastforce split: sum.splits)
      then obtain t' where "JStr t' \<in> set ts" and "case_insensitive_substring s t'"
        by (auto dest!: toLowerCase_of_Inr simp: includes_str_iff)
      with True show ?thesis by (auto simp: set_json_strings)
    next
      case False
      with some_js_False sm
      have all: "\<forall>t \<in> set ts. (case toLowerCase_of (Some t) of
                                Inl e \<Rightarrow> Inl e
                              | Inr tag \<Rightarrow> Inr (includes_str tag (toLowerCase s))) = Inr False"
        by fastforce
      have "\<not> case_insensitive_substring s t'" if "JStr t' \<in> set ts" for t'
        using all that by (fastforce simp: includes_str_iff)
      with False show ?thesis by (auto simp: set_json_strings)
    qed
    with content s show ?thesis by (simp add: tgs)
  qed
qed

lemma localMatches_sound:
  assumes "localMatches keywords researchDB = Inr ms"
  shows "ms = filter (qualifies (keyword_strings keywords)) researchDB"
proof (rule filter_js_sound [OF assms [unfolded localMatches_def]])
  fix item b
  assume "(case array_of (Some keywords) of
             Inl e \<Rightarrow> Inl e
           | Inr ks \<Rightarrow> some_js (matches_keyword item) ks) = Inr b"
  then obtain ks where ks: "keywords = JArr ks" and sm: "some_js (matches_keyword item) ks = Inr b"
    by (auto split: sum.splits dest: array_of_Inr)
  show "b = qualifies (keyword_strings keywords) item"
  proof (cases b)
    case True
    with sm have "some_js (matches_keyword item) ks = Inr True" by simp
    from some_js_True [OF this] obtain k where "k \<in> set ks" and "matches_keyword item k = Inr True"
      by blast
    with matches_keyword_sound [of item k True] ks True show ?thesis
      by (auto simp: qualifies_def set_json_strings)
  next
    case False
    with sm have "some_js (matches_keyword item) ks = Inr False" by simp
    from some_js_False [OF this] have all: "\<forall>k \<in> set ks. matches_keyword item k = Inr False" .
    have "\<not> ((\<exists>c \<in> set (content_strings item). case_insensitive_substring s c) \<or>
              (\<exists>t \<in> set (tag_strings item). case_insensitive_substring s t))"
      if "JStr s \<in> set ks" for s
      using all that matches_keyword_sound [of item "JStr s" False] by auto
    with ks False show ?thesis
      by (auto simp: qualifies_def set_json_strings)
  qed
qed



text \<open>The only exception of the matching is a TypeError.\<close>

lemma toLowerCase_of_Inl: "toLowerCase_of v = Inl e \<Longrightarrow> e = TypeError"
  by (cases v rule: toLowerCase_of.cases) auto

lemma array_of_Inl: "array_of v = Inl e \<Longrightarrow> e = TypeError"
  by (cases v rule: array_of.cases) auto

lemma some_js_Inl: "some_js p xs = Inl e \<Longrightarrow> \<exists>x \<in> set xs. p x = Inl e"
  by (induction xs) (auto split: sum.splits if_splits)

lemma filter_js_Inl: "filter_js p xs = Inl e \<Longrightarrow> \<exists>x \<in> set xs. p x = Inl e"
  by (induction xs) (auto split: sum.splits if_splits)

lemma matches_keyword_Inl: "matches_keyword item k = Inl e \<Longrightarrow> e = TypeError"
  unfolding matches_keyword_def
  by (auto split: sum.splits if_splits
        dest!: some_js_Inl toLowerCase_of_Inl array_of_Inl)

lemma localMatches_Inl: "localMatches keywords researchDB = Inl e \<Longrightarrow> e = TypeError"
  unfolding localMatches_def
  by (auto split: sum.splits dest!: filter_js_Inl some_js_Inl array_of_Inl matches_keyword_Inl)

section \<open>Local matches and the generative fallback\<close>

lemma qualifies_Nil: "\<not> qualifies [] item"
  by (simp add: qualifies_def)


lemma extractKeywords_short: "length t < 50 \<Longrightarrow> extractKeywords w t = (JArr [], [])"
  by (simp add: extractKeywords_def)


lemma length_newSnippets: "length (newSnippets w gs) = length gs"
  by (simp add: newSnippets_def)

lemma findCitations_no_key:
  "apiKey w = [] \<Longrightarrow> findCitationsForSelection w selection researchDB = (Inl (Error ''API Key missing''), [])"
  by (simp add: findCitationsForSelection_def)

text \<open>The three ways through the function once a key is configured.\<close>

lemma findCitations_throws:
  assumes "apiKey w \<noteq> []"
      and "extractKeywords w selection = (kws, tr)"
      and "localMatches kws researchDB = Inl e"
  shows "findCitationsForSelection w selection researchDB = (Inl TypeError, tr)"
  using assms localMatches_Inl [OF assms(3)]
  by (simp add: findCitationsForSelection_def)

lemma findCitations_enough:
  assumes "apiKey w \<noteq> []"
      and "extractKeywords w selection = (kws, tr)"
      and "localMatches kws researchDB = Inr ms"
      and "3 \<le> length ms"
  shows "findCitationsForSelection w selection researchDB = (Inr (take 3 ms), tr)"
  using assms by (simp add: findCitationsForSelection_def)

lemma findCitations_shortfall:
  assumes "apiKey w \<noteq> []"
      and "extractKeywords w selection = (kws, tr)"
      and "localMatches kws researchDB = Inr ms"
      and "length ms < 3"
  shows "findCitationsForSelection w selection researchDB =
           (Inr (case citationModel w (3 - length ms) (slice_to 1000 selection) of
                   Body (JArr gs) \<Rightarrow> ms @ newSnippets w gs
                 | _ \<Rightarrow> ms),
            tr @ [CitationCall (3 - length ms) (slice_to 1000 selection)])"
proof -
  have "(case array_of (Some v) of Inr gs \<Rightarrow> ms @ newSnippets w gs | Inl e \<Rightarrow> ms)
          = (case v of JArr gs \<Rightarrow> ms @ newSnippets w gs | _ \<Rightarrow> ms)" for v
    by (cases v) simp_all
  with assms show ?thesis
    by (simp add: findCitationsForSelection_def Let_def split: reply.splits)
qed












lemma gen_id_example:
  "gen_id example_world 0 = ''gen_1730000000000_4fzyo82mv''"
  "gen_id example_world (Suc 0) = ''gen_1730000000000_k1x9q0w2e''"
  "gen_id example_world (Suc (Suc 0)) = ''gen_1730000000000_9zzb3c7h1''"
  "gen_id example_world (Suc (Suc (Suc 0))) = ''gen_1730000000000_c07fe4tea''"
  by (simp_all add: gen_id_def make_id_def example_world_def substr_def show_nat_example)







lemma localMatches_no_keywords: "localMatches (JArr []) researchDB = Inr []"
  by (induction researchDB) (simp_all add: localMatches_def)





section \<open>Generated ids\<close>

lemma digit_cases:
  fixes d :: nat
  assumes "d < 10"
  shows "d \<in> {0, 1, 2, 3, 4, 5, 6, 7, 8, 9}"
  using assms by auto

lemma digit_char_not_underscore: "d < 10 \<Longrightarrow> digit_char d \<noteq> CHR ''_''"
  using digit_cases [of d] by (auto simp: digit_char_def)

lemma digit_char_inj:
  assumes "d < 10" and "e < 10" and "digit_char d = digit_char e"
  shows "d = e"
proof -
  have "distinct ''0123456789''" by simp
  moreover have "d < length ''0123456789''" "e < length ''0123456789''"
    using assms by simp_all
  ultimately show ?thesis
    using assms(3) unfolding digit_char_def by (simp only: nth_eq_iff_index_eq)
qed

lemma takeWhile_until:
  "c \<notin> set xs \<Longrightarrow> takeWhile (\<lambda>x. x \<noteq> c) (xs @ c # ys) = xs"
  by (induction xs) auto

lemma split_at_first:
  assumes "xs @ c # ys = xs' @ c # ys'" and "c \<notin> set xs" and "c \<notin> set xs'"
  shows "xs = xs' \<and> ys = ys'"
proof -
  have "takeWhile (\<lambda>x. x \<noteq> c) (xs @ c # ys) = xs"
    using assms(2) by (rule takeWhile_until)
  moreover have "takeWhile (\<lambda>x. x \<noteq> c) (xs' @ c # ys') = xs'"
    using assms(3) by (rule takeWhile_until)
  ultimately have "xs = xs'"
    using assms(1) by simp
  with assms(1) show ?thesis by simp
qed

lemma show_nat_no_underscore: "CHR ''_'' \<notin> set (show_nat n)"
proof (induction n rule: show_nat.induct)
  case (1 n)
  show ?case
  proof (cases "n < 10")
    case True
    then have "show_nat n = [digit_char n]"
      by (simp add: show_nat.simps [of n])
    with True show ?thesis
      using digit_char_not_underscore [of n] by simp
  next
    case False
    then have eq: "show_nat n = show_nat (n div 10) @ [digit_char (n mod 10)]"
      by (simp add: show_nat.simps [of n])
    have "n mod 10 < 10" by simp
    then have "digit_char (n mod 10) \<noteq> CHR ''_''"
      by (rule digit_char_not_underscore)
    with False 1 eq show ?thesis
      by simp
  qed
qed

lemma show_nat_not_Nil: "show_nat n \<noteq> []"
  by (simp add: show_nat.simps [of n])

lemma show_nat_inj: "show_nat a = show_nat b \<Longrightarrow> a = b"
proof (induction a arbitrary: b rule: show_nat.induct)
  case (1 a)
  note eq = \<open>show_nat a = show_nat b\<close>
  show ?case
  proof (cases "a < 10")
    case a: True
    then have sa: "show_nat a = [digit_char a]"
      by (simp add: show_nat.simps [of a])
    show ?thesis
    proof (cases "b < 10")
      case True
      then have sb: "show_nat b = [digit_char b]"
        by (simp add: show_nat.simps [of b])
      from eq have "digit_char a = digit_char b"
        unfolding sa sb by simp
      with a True show ?thesis by (rule digit_char_inj)
    next
      case False
      then have sb: "show_nat b = show_nat (b div 10) @ [digit_char (b mod 10)]"
        by (simp add: show_nat.simps [of b])
      from eq have "[digit_char a] = show_nat (b div 10) @ [digit_char (b mod 10)]"
        unfolding sa sb .
      then have "show_nat (b div 10) = []"
        by (simp add: Cons_eq_append_conv)
      with show_nat_not_Nil [of "b div 10"] show ?thesis by simp
    qed
  next
    case a: False
    then have sa: "show_nat a = show_nat (a div 10) @ [digit_char (a mod 10)]"
      by (simp add: show_nat.simps [of a])
    show ?thesis
    proof (cases "b < 10")
      case True
      then have sb: "show_nat b = [digit_char b]"
        by (simp add: show_nat.simps [of b])
      from eq have "show_nat (a div 10) @ [digit_char (a mod 10)] = [digit_char b]"
        unfolding sa sb .
      then have "show_nat (a div 10) = []"
        by (simp add: append_eq_Cons_conv)
      with show_nat_not_Nil [of "a div 10"] show ?thesis by simp
    next
      case False
      then have sb: "show_nat b = show_nat (b div 10) @ [digit_char (b mod 10)]"
        by (simp add: show_nat.simps [of b])
      from eq have both: "show_nat (a div 10) @ [digit_char (a mod 10)]
                        = show_nat (b div 10) @ [digit_char (b mod 10)]"
        unfolding sa sb .
      then have q': "show_nat (a div 10) = show_nat (b div 10)"
        and d: "digit_char (a mod 10) = digit_char (b mod 10)"
        by simp_all
      from "1.IH" [OF a q'] have q: "a div 10 = b div 10" .
      have "a mod 10 < 10" "b mod 10 < 10" by simp_all
      from digit_char_inj [OF this d] have r: "a mod 10 = b mod 10" .
      have "a = 10 * (a div 10) + a mod 10" by simp
      also have "\<dots> = 10 * (b div 10) + b mod 10" by (simp only: q r)
      also have "\<dots> = b" by simp
      finally show ?thesis .
    qed
  qed
qed

lemma make_id_inj:
  assumes "make_id t r = make_id t' r'"
  shows "t = t' \<and> r = r'"
proof -
  from assms have "show_nat t @ CHR ''_'' # r = show_nat t' @ CHR ''_'' # r'"
    by (simp add: make_id_def)
  from split_at_first [OF this show_nat_no_underscore show_nat_no_underscore]
  have n: "show_nat t = show_nat t'" and r: "r = r'"
    by simp_all
  from n have "t = t'"
    by (rule show_nat_inj)
  with r show ?thesis by simp
qed

lemma gen_id_inj:
  assumes "gen_id w i = gen_id w j"
  shows "draw w i = draw w j"
  using make_id_inj [OF assms [unfolded gen_id_def]] by (simp add: draw_def)

lemma starts_with_gen_gen_id: "starts_with_gen (Some (JStr (gen_id w i)))"
  by (simp add: gen_id_def make_id_def)

lemma id_object_literal: "map_of (object_literal ps [(''id'', v)]) ''id'' = Some v"
  by (simp add: object_literal_def update_conv')

lemma ids_newSnippets:
  "ids_of (newSnippets w gs) = map (\<lambda>i. Some (JStr (gen_id w i))) [0..<length gs]"
proof -
  have a: "map fst (enumerate 0 gs) = [0..<length gs]"
    by (simp add: map_fst_enumerate)
  have "ids_of (newSnippets w gs) = map ((\<lambda>i. Some (JStr (gen_id w i))) \<circ> fst) (enumerate 0 gs)"
    by (simp add: ids_of_def newSnippets_def split_def comp_def id_object_literal)
  also have "\<dots> = map (\<lambda>i. Some (JStr (gen_id w i))) (map fst (enumerate 0 gs))"
    by (simp only: map_map)
  finally show ?thesis
    by (simp only: a)
qed

lemma distinct_ids_newSnippets:
  assumes "inj_on (draw w) {..<length gs}"
  shows "distinct (ids_of (newSnippets w gs))"
proof -
  have "inj_on (\<lambda>i. Some (JStr (gen_id w i))) {..<length gs}"
  proof (rule inj_onI)
    fix i j
    assume i: "i \<in> {..<length gs}" and j: "j \<in> {..<length gs}"
      and "Some (JStr (gen_id w i)) = Some (JStr (gen_id w j))"
    then have "gen_id w i = gen_id w j"
      by simp
    then have "draw w i = draw w j"
      by (rule gen_id_inj)
    from assms this i j show "i = j"
      by (rule inj_onD)
  qed
  then have "distinct (map (\<lambda>i. Some (JStr (gen_id w i))) [0..<length gs])"
    by (simp add: distinct_map atLeast0LessThan)
  then show ?thesis
    by (simp only: ids_newSnippets)
qed

text \<open>
  What a call that returns has returned: the first three local matches at most, then
  one generated entry per element of the array the generator sent.
\<close>

lemma findCitations_returned:
  assumes "fst (findCitationsForSelection w selection researchDB) = Inr cs"
  shows "\<exists>gs. cs = take 3 (filter (qualifies (keyword_strings (fst (extractKeywords w selection)))) researchDB)
                    @ newSnippets w gs
              \<and> drop (length (filter (qualifies (keyword_strings (fst (extractKeywords w selection))))
                                 researchDB)) cs
                  = newSnippets w gs"
proof -
  obtain kws tr where ek: "extractKeywords w selection = (kws, tr)"
    by (cases "extractKeywords w selection")
  have key: "apiKey w \<noteq> []"
    using assms by (auto simp: findCitations_no_key)
  obtain ms where lm: "localMatches kws researchDB = Inr ms"
  proof (cases "localMatches kws researchDB")
    case (Inl e)
    from findCitations_throws [OF key ek Inl] assms show ?thesis by simp
  next
    case (Inr ms)
    then show ?thesis by (rule that)
  qed
  have ms: "filter (qualifies (keyword_strings (fst (extractKeywords w selection)))) researchDB = ms"
    using localMatches_sound [OF lm] ek by simp
  show ?thesis
  proof (cases "3 \<le> length ms")
    case True
    from findCitations_enough [OF key ek lm True] assms have "cs = take 3 ms"
      by simp
    with True have "cs = take 3 ms @ newSnippets w [] \<and> drop (length ms) cs = newSnippets w []"
      by (simp add: newSnippets_def)
    then show ?thesis
      unfolding ms by (rule exI)
  next
    case False
    then have few: "length ms < 3" by simp
    from findCitations_shortfall [OF key ek lm few] assms
    have "cs = ms \<or> (\<exists>gs. cs = ms @ newSnippets w gs)"
      by (auto split: reply.splits json.splits)
    moreover have "ms = ms @ newSnippets w []"
      by (simp add: newSnippets_def)
    ultimately obtain gs where "cs = ms @ newSnippets w gs"
      by metis
    with few have "cs = take 3 ms @ newSnippets w gs \<and> drop (length ms) cs = newSnippets w gs"
      by simp
    then show ?thesis
      unfolding ms by (rule exI)
  qed
qed

text \<open>
  C4 (amended). In every list that \<open>findCitationsForSelection\<close> returns, the synthetic
  citations are the entries after the local matches, and the \<open>i\<close>-th of them carries the
  id \<open>gen_<timestamp>_<suffix>\<close> built from the \<open>i\<close>-th draw of the clock and the random
  source, in place of any id the generator sent. Such an id differs from every id of the
  bibliography that is not a string beginning with \<open>gen_\<close>, and from every id
  \<open>gen_<t>_<s>\<close> built from another pair \<open>(t, s)\<close> than its own draw. The ids of the
  synthetic citations differ from one another whenever the draws of the call differ
  pairwise.
\<close>

theorem synthetic_ids_fresh_for_distinct_draws:
  assumes "fst (findCitationsForSelection w selection researchDB) = Inr cs"
  shows "(let locals = filter (qualifies (keyword_strings (fst (extractKeywords w selection)))) researchDB;
              synthetic = drop (length locals) cs
          in ids_of synthetic = map (\<lambda>i. Some (JStr (gen_id w i))) [0..<length synthetic]
             \<and> (\<forall>c \<in> set synthetic. \<forall>e \<in> set researchDB.
                   \<not> starts_with_gen (map_of e ''id'') \<longrightarrow> map_of c ''id'' \<noteq> map_of e ''id'')
             \<and> (\<forall>i < length synthetic. \<forall>t s.
                   (t, s) \<noteq> draw w i \<longrightarrow> map_of (synthetic ! i) ''id'' \<noteq> Some (JStr (make_id t s)))
             \<and> (inj_on (draw w) {..<length synthetic} \<longrightarrow> distinct (ids_of synthetic)))"
proof -
  let ?locals = "filter (qualifies (keyword_strings (fst (extractKeywords w selection)))) researchDB"
  from findCitations_returned [OF assms]
  obtain gs where syn: "drop (length ?locals) cs = newSnippets w gs"
    by blast
  have len: "length (newSnippets w gs) = length gs"
    by (rule length_newSnippets)
  have ids: "ids_of (newSnippets w gs) = map (\<lambda>i. Some (JStr (gen_id w i))) [0..<length gs]"
    by (rule ids_newSnippets)
  have nth: "map_of (newSnippets w gs ! i) ''id'' = Some (JStr (gen_id w i))" if "i < length gs" for i
  proof -
    from that have "map_of (newSnippets w gs ! i) ''id'' = ids_of (newSnippets w gs) ! i"
      by (simp add: ids_of_def len)
    also have "\<dots> = Some (JStr (gen_id w i))"
      using that by (simp add: ids)
    finally show ?thesis .
  qed
  have fresh: "map_of c ''id'' \<noteq> map_of e ''id''"
    if "c \<in> set (newSnippets w gs)" and "\<not> starts_with_gen (map_of e ''id'')" for c e
  proof -
    from that(1) obtain i where "i < length gs" and "c = newSnippets w gs ! i"
      by (auto simp: in_set_conv_nth len)
    then have "map_of c ''id'' = Some (JStr (gen_id w i))"
      by (simp add: nth)
    then have "starts_with_gen (map_of c ''id'')"
      by (simp only: starts_with_gen_gen_id)
    with that(2) show ?thesis
      by auto
  qed
  have other: "map_of (newSnippets w gs ! i) ''id'' \<noteq> Some (JStr (make_id t s))"
    if "i < length gs" and "(t, s) \<noteq> draw w i" for i t s
  proof
    assume "map_of (newSnippets w gs ! i) ''id'' = Some (JStr (make_id t s))"
    with nth [OF that(1)] have "make_id (now w i) (substr 2 9 (random36 w i)) = make_id t s"
      by (simp add: gen_id_def)
    from make_id_inj [OF this] that(2) show False
      by (simp add: draw_def)
  qed
  have dist: "distinct (ids_of (newSnippets w gs))" if "inj_on (draw w) {..<length gs}"
    using that by (rule distinct_ids_newSnippets)
  show ?thesis
    unfolding Let_def syn len
    using ids fresh other dist by blast
qed

lemma newSnippets_example_three:
  "newSnippets example_world [example_generated, example_generated, example_generated]
     = [example_citation ''gen_1730000000000_4fzyo82mv'',
        example_citation ''gen_1730000000000_k1x9q0w2e'',
        example_citation ''gen_1730000000000_9zzb3c7h1'']"
  by (simp add: newSnippets_def gen_id_example object_literal_def example_generated_def
        example_citation_def)

lemma findCitations_example_abc:
  "fst (findCitationsForSelection example_world ''abc'' example_db)
     = Inr [example_citation ''gen_1730000000000_4fzyo82mv'',
            example_citation ''gen_1730000000000_k1x9q0w2e'',
            example_citation ''gen_1730000000000_9zzb3c7h1'']"
proof -
  have k: "apiKey example_world \<noteq> []"
    by (simp add: example_world_def)
  have ek: "extractKeywords example_world ''abc'' = (JArr [], [])"
    by (simp add: extractKeywords_short)
  have reply: "citationModel example_world 3 ''abc''
                 = Body (JArr [example_generated, example_generated, example_generated])"
    by (simp add: example_world_def numeral_3_eq_3)
  show ?thesis
    using findCitations_shortfall [OF k ek localMatches_no_keywords]
    by (simp add: slice_to_def reply newSnippets_example_three)
qed

lemma draws_example:
  "draw example_world 0 = (1730000000000, ''4fzyo82mv'')"
  "draw example_world (Suc 0) = (1730000000000, ''k1x9q0w2e'')"
  "draw example_world (Suc (Suc 0)) = (1730000000000, ''9zzb3c7h1'')"
  by (simp_all add: draw_def example_world_def substr_def)

theorem synthetic_ids_fresh_for_distinct_draws_witness:
  "fst (findCitationsForSelection example_world ''abc'' example_db)
     = Inr [example_citation ''gen_1730000000000_4fzyo82mv'',
            example_citation ''gen_1730000000000_k1x9q0w2e'',
            example_citation ''gen_1730000000000_9zzb3c7h1'']
   \<and> inj_on (draw example_world) {..<3}
   \<and> ids_of [example_citation ''gen_1730000000000_4fzyo82mv'',
              example_citation ''gen_1730000000000_k1x9q0w2e'',
              example_citation ''gen_1730000000000_9zzb3c7h1'']
       = [Some (JStr ''gen_1730000000000_4fzyo82mv''),
          Some (JStr ''gen_1730000000000_k1x9q0w2e''),
          Some (JStr ''gen_1730000000000_9zzb3c7h1'')]
   \<and> distinct (ids_of [example_citation ''gen_1730000000000_4fzyo82mv'',
                        example_citation ''gen_1730000000000_k1x9q0w2e'',
                        example_citation ''gen_1730000000000_9zzb3c7h1''])
   \<and> \<not> starts_with_gen (map_of (example_db ! 0) ''id'')
   \<and> map_of (example_citation ''gen_1730000000000_4fzyo82mv'') ''id'' \<noteq> map_of (example_db ! 0) ''id''"
proof -
  have ms: "filter (qualifies (keyword_strings (fst (extractKeywords example_world ''abc'')))) example_db = []"
    by (simp add: extractKeywords_short qualifies_Nil)
  have inj3: "inj_on (draw example_world) {..<3}"
    by (simp add: inj_on_def numeral_3_eq_3 lessThan_Suc draws_example)
  have seed: "\<not> starts_with_gen (map_of (example_db ! 0) ''id'')"
    by (simp add: example_db_def ResearchSnippet_def)
  have mem: "example_db ! 0 \<in> set example_db"
    by (simp add: example_db_def)
  show ?thesis
    using inj3 seed mem
      synthetic_ids_fresh_for_distinct_draws [OF findCitations_example_abc]
    by (simp add: ms findCitations_example_abc Let_def numeral_3_eq_3 gen_id_example)
qed

text \<open>
  C4 as stated fails when the random source repeats itself within a millisecond: the
  three citations generated in one call share one id, which is also the id of an entry
  that an earlier call left in the bibliography.
\<close>

theorem synthetic_ids_counterexample:
  "fst (findCitationsForSelection world_repeating_draws ''abc''
          [example_citation ''gen_1730000000000_4fzyo82mv''])
     = Inr [example_citation ''gen_1730000000000_4fzyo82mv'',
            example_citation ''gen_1730000000000_4fzyo82mv'',
            example_citation ''gen_1730000000000_4fzyo82mv'']"
proof -
  have k: "apiKey world_repeating_draws \<noteq> []"
    by (simp add: world_repeating_draws_def example_world_def)
  have ek: "extractKeywords world_repeating_draws ''abc'' = (JArr [], [])"
    by (simp add: extractKeywords_short)
  have reply: "citationModel world_repeating_draws 3 ''abc''
                 = Body (JArr [example_generated, example_generated, example_generated])"
    by (simp add: world_repeating_draws_def example_world_def numeral_3_eq_3)
  have id: "gen_id world_repeating_draws i = ''gen_1730000000000_4fzyo82mv''" for i
    by (simp add: gen_id_def make_id_def world_repeating_draws_def example_world_def substr_def
          show_nat_example)
  have new: "newSnippets world_repeating_draws [example_generated, example_generated, example_generated]
        = [example_citation ''gen_1730000000000_4fzyo82mv'',
           example_citation ''gen_1730000000000_4fzyo82mv'',
           example_citation ''gen_1730000000000_4fzyo82mv'']"
    by (simp add: newSnippets_def id object_literal_def example_generated_def example_citation_def)
  show ?thesis
    using findCitations_shortfall [OF k ek localMatches_no_keywords]
    by (simp add: slice_to_def reply new)
qed

section \<open>Merging citations into the bibliography\<close>









section \<open>The profile returned by style analysis\<close>

lemma map_of_update_fold:
  "map_of (fold (\<lambda>(k, v). AList.update k v) kvs base) name =
     (case map_of (rev kvs) name of Some v \<Rightarrow> Some v | None \<Rightarrow> map_of base name)"
proof (induction kvs arbitrary: base)
  case Nil
  show ?case by simp
next
  case (Cons kv kvs)
  obtain k v where kv: "kv = (k, v)" by (cases kv)
  show ?case
    by (simp add: kv Cons.IH update_conv' map_add_def split: option.splits)
qed

lemma map_of_object_literal:
  "map_of (object_literal base kvs) name =
     (case map_of (rev kvs) name of Some v \<Rightarrow> Some v | None \<Rightarrow> map_of base name)"
  unfolding object_literal_def by (rule map_of_update_fold)

lemma analyzeStyle_no_key:
  "apiKey w = [] \<Longrightarrow> analyzeStyle w sampleText = (Inl (Error ''API Key missing''), [])"
  by (simp add: analyzeStyle_def)

lemma analyzeStyle_effects:
  "apiKey w \<noteq> [] \<Longrightarrow> snd (analyzeStyle w sampleText) = [StyleCall (slice_to 3000 sampleText)]"
  by (simp add: analyzeStyle_def Let_def)

lemma analyzeStyle_failed:
  assumes "apiKey w \<noteq> []" and "analysis_failed (styleModel w (slice_to 3000 sampleText))"
  shows "fst (analyzeStyle w sampleText) = Inr errorProfile"
  using assms
  by (cases "styleModel w (slice_to 3000 sampleText)" rule: analysis_failed.cases)
     (simp_all add: analyzeStyle_def styleFromParsed_def Let_def)

text \<open>
  C7 (amended). When a request went to the style analyser and the call failed (rejected, no text,
  text that is not JSON, or null), \<open>analyzeStyle\<close> returns the error profile as an
  ordinary result: the descriptors \<open>tone\<close>, \<open>avgSentenceLength\<close> and \<open>jargonLevel\<close> are the
  text \<open>Error\<close>, and \<open>formalityLevel\<close>, \<open>sentenceVariance\<close> and \<open>activeVoice\<close> are 50. The
  summary \<open>rawSummary\<close> of that profile is the message \<open>Failed to analyze style.\<close>
\<close>

theorem analysis_failure_returns_error_profile:
  assumes "StyleCall sample \<in> set (snd (analyzeStyle w sampleText))"
      and "analysis_failed (styleModel w sample)"
  shows "fst (analyzeStyle w sampleText) = Inr errorProfile
         \<and> map (map_of errorProfile) [''tone'', ''avgSentenceLength'', ''jargonLevel'']
             = [Some (JStr ''Error''), Some (JStr ''Error''), Some (JStr ''Error'')]
         \<and> map (map_of errorProfile) [''formalityLevel'', ''sentenceVariance'', ''activeVoice'']
             = [Some (JNum 50), Some (JNum 50), Some (JNum 50)]
         \<and> map_of errorProfile ''rawSummary'' = Some (JStr ''Failed to analyze style.'')"
proof -
  have key: "apiKey w \<noteq> []"
    using assms(1) by (auto simp: analyzeStyle_no_key)
  with assms(1) have "sample = slice_to 3000 sampleText"
    by (simp add: analyzeStyle_effects)
  with assms(2) key have "fst (analyzeStyle w sampleText) = Inr errorProfile"
    by (simp add: analyzeStyle_failed)
  then show ?thesis
    by (simp add: errorProfile_def)
qed

theorem analysis_failure_returns_error_profile_witness:
  "StyleCall example_selection \<in> set (snd (analyzeStyle world_analyser_down example_selection))
   \<and> analysis_failed (styleModel world_analyser_down example_selection)
   \<and> fst (analyzeStyle world_analyser_down example_selection) = Inr errorProfile"
proof -
  have k: "apiKey world_analyser_down \<noteq> []"
    by (simp add: world_analyser_down_def example_world_def)
  have s: "slice_to 3000 example_selection = example_selection"
    by (simp add: slice_to_def example_selection_def)
  have call: "StyleCall example_selection \<in> set (snd (analyzeStyle world_analyser_down example_selection))"
    by (simp add: analyzeStyle_effects [OF k] s)
  have failed: "analysis_failed (styleModel world_analyser_down example_selection)"
    by (simp add: world_analyser_down_def)
  show ?thesis
    using call failed analysis_failure_returns_error_profile [OF call failed]
    by simp
qed

text \<open>
  C7 as stated fails for the summary, a descriptive text field of the profile: after a
  rejected request it holds the message \<open>Failed to analyze style.\<close>, not the text
  \<open>Error\<close>.
\<close>

theorem error_profile_summary_counterexample:
  "StyleCall example_selection \<in> set (snd (analyzeStyle world_analyser_down example_selection))
   \<and> styleModel world_analyser_down example_selection = Rejected
   \<and> fst (analyzeStyle world_analyser_down example_selection) = Inr errorProfile
   \<and> map_of errorProfile ''rawSummary'' = Some (JStr ''Failed to analyze style.'')
   \<and> map_of errorProfile ''rawSummary'' \<noteq> Some (JStr ''Error'')"
proof -
  have k: "apiKey world_analyser_down \<noteq> []"
    by (simp add: world_analyser_down_def example_world_def)
  have s: "slice_to 3000 example_selection = example_selection"
    by (simp add: slice_to_def example_selection_def)
  have r: "styleModel world_analyser_down example_selection = Rejected"
    by (simp add: world_analyser_down_def)
  then have "analysis_failed (styleModel world_analyser_down (slice_to 3000 example_selection))"
    by (simp add: s)
  from analyzeStyle_failed [OF k this] r show ?thesis
    by (simp add: analyzeStyle_effects [OF k] s errorProfile_def)
qed

lemma styleFromParsed_empty_object: "styleFromParsed (JObj []) = Inr fallbacks_only"
  by (simp add: styleFromParsed_def object_literal_def fallbacks_only_def)

lemma styleFromParsed_blank_dialect:
  "styleFromParsed (JObj [(''dialect'', JStr [])]) = Inr fallbacks_only"
  by (simp add: styleFromParsed_def object_literal_def fallbacks_only_def)

lemma slice_example_3000: "slice_to 3000 example_selection = example_selection"
  by (simp add: slice_to_def example_selection_def)

text \<open>
  C6. The claim does not hold of the code: when the analyser answers with the empty
  object, the profile returned holds the seventeen fallback fields only; \<open>tone\<close>,
  \<open>useIdioms\<close> and \<open>useRhetoricalDevices\<close>, among others, have no value.
\<close>

theorem empty_answer_leaves_fields_undefined:
  "styleModel example_world (slice_to 3000 example_selection) = Body (JObj [])
   \<and> fst (analyzeStyle example_world example_selection) = Inr fallbacks_only
   \<and> map (map_of fallbacks_only) [''tone'', ''useIdioms'', ''useRhetoricalDevices'']
        = [None, None, None]
   \<and> \<not> every_field_defined fallbacks_only"
proof -
  have r: "styleModel example_world (slice_to 3000 example_selection) = Body (JObj [])"
    by (simp add: example_world_def)
  have "fst (analyzeStyle example_world example_selection) = Inr fallbacks_only"
    by (simp add: analyzeStyle_def r styleFromParsed_empty_object Let_def)
       (simp add: example_world_def)
  moreover have "map (map_of fallbacks_only) [''tone'', ''useIdioms'', ''useRhetoricalDevices'']
        = [None, None, None]"
    by (simp add: fallbacks_only_def)
  moreover have "\<not> every_field_defined fallbacks_only"
    by (simp add: every_field_defined_def StyleProfile_fields_def fallbacks_only_def)
  ultimately show ?thesis
    using r by simp
qed

lemma or_else_conv: "Some (or_else v d) = (if truthy v then v else Some d)"
  by (cases v) simp_all

lemma nullish_else_conv: "Some (nullish_else v d) = (if defined_value v then v else Some d)"
  by (cases "(v, d)" rule: nullish_else.cases) simp_all

lemma analyzeStyle_parsed:
  assumes "apiKey w \<noteq> []"
      and "styleModel w (slice_to 3000 sampleText) = Body parsed"
      and "parsed \<noteq> JNull"
  shows "fst (analyzeStyle w sampleText) = Inr (projr (styleFromParsed parsed))"
  using assms by (simp add: analyzeStyle_def styleFromParsed_def Let_def)

lemma or_fallbacks_coalesced:
  assumes "parsed \<noteq> JNull"
  shows "list_all (\<lambda>(f, d). map_of (projr (styleFromParsed parsed)) f
                    = Some (or_else (map_of (own_properties parsed) f) d)) or_fallbacks"
  using assms
  by (simp add: styleFromParsed_def Let_def map_of_object_literal or_fallbacks_def)

lemma nullish_fallbacks_coalesced:
  assumes "parsed \<noteq> JNull"
  shows "list_all (\<lambda>(f, d). map_of (projr (styleFromParsed parsed)) f
                    = Some (nullish_else (map_of (own_properties parsed) f) d)) nullish_fallbacks"
  using assms
  by (simp add: styleFromParsed_def Let_def map_of_object_literal nullish_fallbacks_def)

text \<open>Every other property of the answer is copied as it is, present or not.\<close>

lemma other_fields_copied:
  assumes "parsed \<noteq> JNull"
      and "name \<notin> fst ` set or_fallbacks" and "name \<notin> fst ` set nullish_fallbacks"
  shows "map_of (projr (styleFromParsed parsed)) name = map_of (own_properties parsed) name"
  using assms
  by (simp add: styleFromParsed_def Let_def map_of_object_literal or_fallbacks_def
        nullish_fallbacks_def)

text \<open>
  C8 (amended). On an answer that parses to a value other than null, each of the
  seventeen fallback fields is filled field by field. A field filled with \<open>||\<close> (the
  eight enumerations, \<open>allowedPunctuation\<close> and \<open>bannedWords\<close>) takes the supplied value
  when that value is truthy and its default otherwise, so that an empty string, zero
  and false count as absent, like undefined and null. A field filled with \<open>??\<close> (the seven
  flags) takes the supplied value when it is neither undefined nor null and its default
  otherwise. The defaults are \<open>American\<close> for the dialect, true for the three
  grammar flags, the list of comma and full stop for \<open>allowedPunctuation\<close> and the empty
  list for \<open>bannedWords\<close>.
\<close>

theorem fallback_fields_coalesced:
  assumes "apiKey w \<noteq> []"
      and "styleModel w (slice_to 3000 sampleText) = Body parsed"
      and "parsed \<noteq> JNull"
  shows "(case fst (analyzeStyle w sampleText) of
            Inl e \<Rightarrow> False
          | Inr profile \<Rightarrow>
              list_all (\<lambda>(f, d). map_of profile f =
                          (if truthy (map_of (own_properties parsed) f)
                           then map_of (own_properties parsed) f else Some d)) or_fallbacks
            \<and> list_all (\<lambda>(f, d). map_of profile f =
                          (if defined_value (map_of (own_properties parsed) f)
                           then map_of (own_properties parsed) f else Some d)) nullish_fallbacks)
         \<and> map (map_of or_fallbacks) [''dialect'', ''allowedPunctuation'', ''bannedWords'']
             = [Some (JStr ''American''), Some (JArr [JStr '','', JStr ''.'']), Some (JArr [])]
         \<and> map (map_of nullish_fallbacks)
               [''allowContractions'', ''allowSplitInfinitives'', ''allowEndingPrepositions'']
             = [Some (JBool True), Some (JBool True), Some (JBool True)]"
proof -
  have "fst (analyzeStyle w sampleText) = Inr (projr (styleFromParsed parsed))"
    using assms by (rule analyzeStyle_parsed)
  moreover note or_fallbacks_coalesced [OF assms(3)] nullish_fallbacks_coalesced [OF assms(3)]
  moreover have "map (map_of or_fallbacks) [''dialect'', ''allowedPunctuation'', ''bannedWords'']
             = [Some (JStr ''American''), Some (JArr [JStr '','', JStr ''.'']), Some (JArr [])]"
    by (simp add: or_fallbacks_def)
  moreover have "map (map_of nullish_fallbacks)
               [''allowContractions'', ''allowSplitInfinitives'', ''allowEndingPrepositions'']
             = [Some (JBool True), Some (JBool True), Some (JBool True)]"
    by (simp add: nullish_fallbacks_def)
  ultimately show ?thesis
    by (simp add: or_else_conv nullish_else_conv)
qed

theorem fallback_fields_coalesced_witness:
  "apiKey world_partial_style \<noteq> []
   \<and> styleModel world_partial_style (slice_to 3000 example_selection) = Body partial_style
   \<and> partial_style \<noteq> JNull
   \<and> map (map_of (projr (fst (analyzeStyle world_partial_style example_selection))))
        [''dialect'', ''allowContractions'', ''allowSplitInfinitives'', ''bannedWords'']
      = [Some (JStr ''British''), Some (JBool False), Some (JBool True), Some (JArr [])]"
proof -
  have k: "apiKey world_partial_style \<noteq> []"
    by (simp add: world_partial_style_def example_world_def)
  have r: "styleModel world_partial_style (slice_to 3000 example_selection) = Body partial_style"
    by (simp add: world_partial_style_def)
  have n: "partial_style \<noteq> JNull"
    by (simp add: partial_style_def)
  have own: "own_properties partial_style =
               [(''tone'', JStr ''Formal''), (''dialect'', JStr ''British''),
                (''allowContractions'', JBool False)]"
    by (simp add: partial_style_def)
  show ?thesis
    using k r n fallback_fields_coalesced [OF k r n]
    by (simp add: own or_fallbacks_def nullish_fallbacks_def split: sum.splits)
qed

text \<open>
  C8 as stated fails for a value that is present but falsy: an answer whose dialect is
  the empty string comes back with the dialect \<open>American\<close>.
\<close>

theorem blank_dialect_counterexample:
  "styleModel world_blank_dialect (slice_to 3000 example_selection) = Body (JObj [(''dialect'', JStr [])])
   \<and> fst (analyzeStyle world_blank_dialect example_selection) = Inr fallbacks_only
   \<and> map_of fallbacks_only ''dialect'' = Some (JStr ''American'')"
proof -
  have k: "apiKey world_blank_dialect \<noteq> []"
    by (simp add: world_blank_dialect_def example_world_def)
  have r: "styleModel world_blank_dialect (slice_to 3000 example_selection) = Body (JObj [(''dialect'', JStr [])])"
    by (simp add: world_blank_dialect_def)
  have "fst (analyzeStyle world_blank_dialect example_selection) = Inr fallbacks_only"
    using analyzeStyle_parsed [OF k r] by (simp add: styleFromParsed_blank_dialect)
  moreover have "map_of fallbacks_only ''dialect'' = Some (JStr ''American'')"
    by (simp add: fallbacks_only_def)
  ultimately show ?thesis
    using r by simp
qed

section \<open>Calibration from the editor\<close>

text \<open>
  C9 (amended). Calibration on a document of fewer than 50 characters (10, say) is
  rejected at once: the state is left as it is, an alert is shown and no request
  reaches the model. On a document of 50 characters or more (60, say), with a key
  configured, exactly one request goes to the style analyser, for the first 3000
  characters of the document, and nothing else is requested.
\<close>

theorem calibration_guarded_by_length:
  "(length (doc_content st) < 50 \<longrightarrow>
      handleCalibrateFromEditor w st cur
        = (cur, [Alert ''Please write at least 50 characters before calibrating.''])
      \<and> filter is_model_call (snd (handleCalibrateFromEditor w st cur)) = [])
   \<and> (50 \<le> length (doc_content st) \<and> apiKey w \<noteq> [] \<longrightarrow>
      filter is_model_call (snd (handleCalibrateFromEditor w st cur))
        = [StyleCall (slice_to 3000 (doc_content st))])"
proof (intro conjI impI)
  assume "length (doc_content st) < 50"
  then show "handleCalibrateFromEditor w st cur
        = (cur, [Alert ''Please write at least 50 characters before calibrating.''])"
    and "filter is_model_call (snd (handleCalibrateFromEditor w st cur)) = []"
    by (simp_all add: handleCalibrateFromEditor_def)
next
  assume a: "50 \<le> length (doc_content st) \<and> apiKey w \<noteq> []"
  then have "snd (handleCalibrateFromEditor w st cur) = snd (analyzeStyle w (doc_content st))"
    by (simp add: handleCalibrateFromEditor_def split: prod.splits sum.splits)
  with a show "filter is_model_call (snd (handleCalibrateFromEditor w st cur))
        = [StyleCall (slice_to 3000 (doc_content st))]"
    by (simp add: analyzeStyle_effects)
qed

lemma length_example_selection: "length example_selection = 60"
  by (simp add: example_selection_def)

theorem calibration_guarded_by_length_witness:
  "length (doc_content short_state) = 10
   \<and> handleCalibrateFromEditor example_world short_state short_state
        = (short_state, [Alert ''Please write at least 50 characters before calibrating.''])
   \<and> filter is_model_call (snd (handleCalibrateFromEditor example_world short_state short_state)) = []
   \<and> length (doc_content example_state) = 60
   \<and> apiKey example_world \<noteq> []
   \<and> filter is_model_call (snd (handleCalibrateFromEditor example_world example_state example_state))
        = [StyleCall example_selection]"
proof -
  have s: "length (doc_content short_state) = 10"
    by (simp add: short_state_def)
  have e: "length (doc_content example_state) = 60"
    by (simp add: example_state_def length_example_selection)
  have k: "apiKey example_world \<noteq> []"
    by (simp add: example_world_def)
  have d: "doc_content example_state = example_selection"
    by (simp add: example_state_def)
  show ?thesis
    using s e k
      calibration_guarded_by_length [of short_state example_world short_state]
      calibration_guarded_by_length [of example_state example_world example_state]
    by (simp add: d slice_example_3000)
qed

text \<open>
  C9 as stated fails when no key is configured: on the document of 60 characters
  \<open>analyzeStyle\<close> throws before the request, and the analyser is not invoked at all.
\<close>

theorem calibration_without_key_counterexample:
  "length (doc_content example_state) = 60
   \<and> handleCalibrateFromEditor world_without_key example_state
          (example_state\<lparr>isCalibrating := True\<rparr>)
        = (example_state, [])"
proof -
  have k: "apiKey world_without_key = []"
    by (simp add: world_without_key_def)
  have e: "length (doc_content example_state) = 60"
    by (simp add: example_state_def length_example_selection)
  have "example_state\<lparr>isCalibrating := True, isCalibrating := False\<rparr> = example_state"
    by (simp add: example_state_def)
  then show ?thesis
    using e by (simp add: handleCalibrateFromEditor_def analyzeStyle_no_key [OF k])
qed

section \<open>No key configured\<close>

text \<open>
  C10 (amended). With the empty string as the key, each exported operation other than
  \<open>extractKeywords\<close> (\<open>analyzeStyle\<close>, \<open>ghostWrite\<close>, \<open>rewriteSection\<close>, \<open>continueSection\<close>,
  \<open>findCitationsForSelection\<close> and \<open>generateStyleSample\<close>) fails with \<open>API Key missing\<close>
  before anything else happens: no keyword extraction, no matching, no request, no
  fallback. \<open>extractKeywords\<close> does not fail; it returns the empty list without a
  request.
\<close>

theorem missing_key_stops_operations:
  assumes "apiKey w = []"
  shows "analyzeStyle w sampleText = (Inl (Error ''API Key missing''), [])
         \<and> ghostWrite w currentText profile researchContext mode = (Inl (Error ''API Key missing''), [])
         \<and> rewriteSection w selection profile mode = (Inl (Error ''API Key missing''), [])
         \<and> continueSection w selection profile mode = (Inl (Error ''API Key missing''), [])
         \<and> findCitationsForSelection w selection researchDB = (Inl (Error ''API Key missing''), [])
         \<and> generateStyleSample w profile = (Inl (Error ''API Key missing''), [])
         \<and> extractKeywords w selection = (JArr [], [])"
  using assms
  by (simp add: analyzeStyle_def ghostWrite_def rewriteSection_def continueSection_def
        findCitationsForSelection_def generateStyleSample_def extractKeywords_def)

theorem missing_key_stops_operations_witness:
  "apiKey world_without_key = []
   \<and> analyzeStyle world_without_key example_selection = (Inl (Error ''API Key missing''), [])
   \<and> findCitationsForSelection world_without_key example_selection example_db
        = (Inl (Error ''API Key missing''), [])
   \<and> generateStyleSample world_without_key errorProfile = (Inl (Error ''API Key missing''), [])"
proof -
  have k: "apiKey world_without_key = []"
    by (simp add: world_without_key_def)
  show ?thesis
    using k missing_key_stops_operations [OF k, where sampleText = example_selection
        and selection = example_selection and researchDB = example_db and profile = errorProfile]
    by simp
qed

text \<open>
  C10 as stated fails for \<open>extractKeywords\<close>, which is exported too: with no key it
  returns the empty list as an ordinary value.
\<close>

theorem extractKeywords_without_key_counterexample:
  "apiKey world_without_key = []
   \<and> extractKeywords world_without_key example_selection = (JArr [], [])"
  by (simp add: world_without_key_def extractKeywords_def)

end
